theory Spec2Isabelle
  imports Main "HOL-Library.Sublist" "HOL-Library.List_Lexorder" "HOL-Library.Multiset"
    "HOL-Library.Product_Lexorder"
begin

section \<open>Python values used by tasuki2sgf\<close>

text \<open>
  A Python \<open>str\<close> is a sequence of Unicode code points, so it is modelled as a list of
  naturals; \<open>str\<close> turns an ASCII literal of the source into that form.  \<open>bytes\<close> are lists
  of naturals below 256.
\<close>

type_synonym pystr = "nat list"
type_synonym pybytes = "nat list"

definition str :: "string \<Rightarrow> pystr" where
  "str s = map of_char s"

datatype error =
    AssertionError
  | ValueError
  | OverflowError
  | AttributeError
  | UnicodeEncodeError
  | OSError

text \<open>
  The interpreter's Unicode character database is not part of the repository.  Its ASCII
  part is written out below; what it says about code points from 128 on is a parameter:
  the full upper-case mapping, the white-space property and the decimal-digit value.
\<close>

record ucd =
  uc_upper :: "nat \<Rightarrow> pystr"
  uc_isspace :: "nat \<Rightarrow> bool"
  uc_decimal :: "nat \<Rightarrow> nat option"

text \<open>\<open>sub in s\<close> on strings: \<open>sub\<close> occurs in \<open>s\<close> as a contiguous block.\<close>

fun py_in :: "pystr \<Rightarrow> pystr \<Rightarrow> bool" where
  "py_in sub [] = (sub = [])"
| "py_in sub (c # cs) = (prefix sub (c # cs) \<or> py_in sub cs)"

text \<open>\<open>s.upper()\<close>: ASCII \<open>a\<close>..\<open>z\<close> go to \<open>A\<close>..\<open>Z\<close>, other ASCII stays.\<close>

definition upper_char :: "ucd \<Rightarrow> nat \<Rightarrow> pystr" where
  "upper_char U c =
     (if c < 128 then (if 97 \<le> c \<and> c \<le> 122 then [c - 32] else [c]) else uc_upper U c)"

definition py_upper :: "ucd \<Rightarrow> pystr \<Rightarrow> pystr" where
  "py_upper U s = concat (map (upper_char U) s)"

text \<open>
  \<open>chr(n)\<close>: the argument is converted to a C int first (\<open>OverflowError\<close> outside 32
  bits), then has to be a code point (\<open>ValueError\<close> outside \<open>range(0x110000)\<close>).
\<close>

definition py_chr :: "int \<Rightarrow> error + nat" where
  "py_chr n =
     (if n < - 2147483648 \<or> 2147483647 < n then Inl OverflowError
      else if n < 0 \<or> 1114111 < n then Inl ValueError
      else Inr (nat n))"

section \<open>The board model: class SimpleSGF\<close>

record SimpleSGF =
  size_sgf :: int
  setup_black :: "(int \<times> int) set"
  setup_white :: "(int \<times> int) set"
  marks :: "(pystr \<times> int \<times> int) set"
  comment :: "pystr option"
  player :: pystr

text \<open>\<open>SimpleSGF(size)\<close>, the constructor.\<close>

definition init_sgf :: "int \<Rightarrow> SimpleSGF" where
  "init_sgf n =
     \<lparr> size_sgf = n, setup_black = {}, setup_white = {}, marks = {},
       comment = None, player = str ''B'' \<rparr>"

text \<open>\<open>coord2letter\<close>: the column letter is computed first, then the row letter.\<close>

definition coord2letter :: "SimpleSGF \<Rightarrow> int \<Rightarrow> int \<Rightarrow> error + pystr" where
  "coord2letter g row col =
     (case py_chr (col + 97) of
        Inl e \<Rightarrow> Inl e
      | Inr c \<Rightarrow>
          (case py_chr (size_sgf g - row - 1 + 97) of
             Inl e \<Rightarrow> Inl e
           | Inr r \<Rightarrow> Inr [c, r]))"

definition set_setup_stones ::
  "(int \<times> int) list \<Rightarrow> (int \<times> int) list \<Rightarrow> SimpleSGF \<Rightarrow> SimpleSGF" where
  "set_setup_stones black white g = g\<lparr>setup_black := set black, setup_white := set white\<rparr>"

definition add_label :: "pystr \<Rightarrow> int \<Rightarrow> int \<Rightarrow> SimpleSGF \<Rightarrow> SimpleSGF" where
  "add_label label row col g = g\<lparr>marks := insert (label, row, col) (marks g)\<rparr>"

definition set_comment :: "pystr \<Rightarrow> SimpleSGF \<Rightarrow> SimpleSGF" where
  "set_comment c g = g\<lparr>comment := Some c\<rparr>"

text \<open>
  \<open>set_player\<close>: the assertion (assertions are on) tests whether the upper-cased
  argument occurs in the string \<open>"BW"\<close>; only then is the field assigned.
\<close>

definition set_player :: "ucd \<Rightarrow> pystr \<Rightarrow> SimpleSGF \<Rightarrow> error + SimpleSGF" where
  "set_player U p g =
     (if py_in (py_upper U p) (str ''BW'')
      then Inr (g\<lparr>player := py_upper U p\<rparr>)
      else Inl AssertionError)"

text \<open>
  \<open>flip_colors\<close>: three statements.  The tuple assignment swaps the stone sets; the
  first \<open>if\<close> assigns \<open>"W"\<close>; the body of the second \<open>if\<close> is the expression
  \<open>self.player == "B"\<close>, a comparison whose value is dropped.
\<close>

definition flip_colors :: "SimpleSGF \<Rightarrow> SimpleSGF" where
  "flip_colors g =
     (let g1 = g\<lparr>setup_black := setup_white g, setup_white := setup_black g\<rparr>;
          g2 = (if player g1 = str ''B'' then g1\<lparr>player := str ''W''\<rparr> else g1);
          g3 = (if player g2 = str ''W'' then (let unused = (player g2 = str ''B'') in g2) else g2)
      in g3)"

text \<open>\<open>str(i)\<close> of an integer, as the f-string \<open>{self.size}\<close> formats it.\<close>

fun digits :: "nat \<Rightarrow> pystr" where
  "digits n = (if n < 10 then [48 + n] else digits (n div 10) @ [48 + n mod 10])"

declare digits.simps [simp del]

definition str_int :: "int \<Rightarrow> pystr" where
  "str_int i = (if i < 0 then 45 # digits (nat (- i)) else digits (nat i))"

text \<open>\<open>s.encode("utf-8")\<close>: strict encoding, lone surrogates are refused.\<close>

definition utf8_char :: "nat \<Rightarrow> error + pybytes" where
  "utf8_char c =
     (if c < 128 then Inr [c]
      else if c < 2048 then Inr [192 + c div 64, 128 + c mod 64]
      else if 55296 \<le> c \<and> c \<le> 57343 then Inl UnicodeEncodeError
      else if c < 65536 then Inr [224 + c div 4096, 128 + (c div 64) mod 64, 128 + c mod 64]
      else if c < 1114112 then
        Inr [240 + c div 262144, 128 + (c div 4096) mod 64, 128 + (c div 64) mod 64,
             128 + c mod 64]
      else Inl UnicodeEncodeError)"

definition and_then :: "error + 'a \<Rightarrow> ('a \<Rightarrow> error + 'b) \<Rightarrow> error + 'b" where
  "and_then r f = (case r of Inl e \<Rightarrow> Inl e | Inr x \<Rightarrow> f x)"

fun encode_utf8 :: "pystr \<Rightarrow> error + pybytes" where
  "encode_utf8 [] = Inr []"
| "encode_utf8 (c # cs) =
     and_then (utf8_char c) (\<lambda>b. and_then (encode_utf8 cs) (\<lambda>bs. Inr (b @ bs)))"

text \<open>
  The two generator expressions of \<open>serialize\<close> joined into one string: one bracketed
  letter pair per stone, one bracketed \<open>pair:label\<close> per mark, in iteration order.
\<close>

fun join_points :: "SimpleSGF \<Rightarrow> (int \<times> int) list \<Rightarrow> error + pystr" where
  "join_points g [] = Inr []"
| "join_points g (x # xs) =
     and_then (coord2letter g (fst x) (snd x)) (\<lambda>l.
     and_then (join_points g xs) (\<lambda>rest. Inr (str ''['' @ l @ str '']'' @ rest)))"

fun join_marks :: "SimpleSGF \<Rightarrow> (pystr \<times> int \<times> int) list \<Rightarrow> error + pystr" where
  "join_marks g [] = Inr []"
| "join_marks g (x # xs) =
     and_then (coord2letter g (fst (snd x)) (snd (snd x))) (\<lambda>l.
     and_then (join_marks g xs) (\<lambda>rest. Inr (str ''['' @ l @ str '':'' @ fst x @ str '']'' @ rest)))"

text \<open>
  The order in which the interpreter iterates over a set is not fixed by the language, so
  \<open>serialize\<close> takes it as an argument: \<open>bs\<close>, \<open>ws\<close> and \<open>ms\<close> enumerate the black
  stones, the white stones and the marks.  \<open>enumerates xs S\<close> says that \<open>xs\<close> is such an
  order for \<open>S\<close>.
\<close>

definition enumerates :: "'a list \<Rightarrow> 'a set \<Rightarrow> bool" where
  "enumerates xs S = (distinct xs \<and> set xs = S)"

definition serialize ::
  "(int \<times> int) list \<Rightarrow> (int \<times> int) list \<Rightarrow> (pystr \<times> int \<times> int) list \<Rightarrow> SimpleSGF
     \<Rightarrow> error + pybytes" where
  "serialize bs ws ms g =
     (let b0 = str '';FF[4]GM[1]'';
          b1 = b0 @ str ''SZ['' @ str_int (size_sgf g) @ str '']'';
          b2 = (case comment g of
                  None \<Rightarrow> b1
                | Some c \<Rightarrow> if c \<noteq> [] then b1 @ str ''\<newline>C['' @ c @ str '']'' else b1);
          b3 = (if player g \<noteq> [] then b2 @ str ''\<newline>PL['' @ player g @ str '']'' else b2)
      in
      and_then (if setup_black g \<noteq> {}
                then and_then (join_points g bs) (\<lambda>j. Inr (b3 @ str ''\<newline>AB'' @ j))
                else Inr b3) (\<lambda>b4.
      and_then (if setup_white g \<noteq> {}
                then and_then (join_points g ws) (\<lambda>j. Inr (b4 @ str ''\<newline>AW'' @ j))
                else Inr b4) (\<lambda>b5.
      and_then (if marks g \<noteq> {}
                then and_then (join_marks g ms) (\<lambda>j. Inr (b5 @ str ''\<newline>LB'' @ j))
                else Inr b5) (\<lambda>b6.
      encode_utf8 (str ''('' @ (b6 @ str ''\<newline>CA[UTF-8]'') @ str '')\<newline>'')))))"

section \<open>The diagram parser: tex2sgf\<close>

text \<open>
  \<open>s.replace(old, new)\<close>: the occurrences of \<open>old\<close> are replaced from left to right
  and do not overlap; an empty \<open>old\<close> matches before every character and at the end.
\<close>

function py_replace :: "pystr \<Rightarrow> pystr \<Rightarrow> pystr \<Rightarrow> pystr" where
  "py_replace old new [] = (if old = [] then new else [])"
| "py_replace old new (c # cs) =
     (if old = [] then new @ c # py_replace old new cs
      else if prefix old (c # cs) then new @ py_replace old new (drop (length old) (c # cs))
      else c # py_replace old new cs)"
  by pat_completeness auto

termination
  by (relation "measure (\<lambda>(old, new, s). length s)") auto

text \<open>\<open>s.split(sep)\<close> for a separator of one character.\<close>

fun py_split :: "nat \<Rightarrow> pystr \<Rightarrow> pystr list" where
  "py_split sep [] = [] # []"
| "py_split sep (c # cs) =
     (if c = sep then [] # py_split sep cs
      else (case py_split sep cs of [] \<Rightarrow> [c] # [] | l # ls \<Rightarrow> (c # l) # ls))"

text \<open>
  The state the two loops of \<open>tex2sgf\<close> work on: the board under construction, the two
  lists of the dictionary \<open>setup\<close>, and the column counter.
\<close>

record tex_state =
  game :: SimpleSGF
  black :: "(int \<times> int) list"
  white :: "(int \<times> int) list"
  col_num :: int

text \<open>
  The body of the inner loop, for one character.  Both tests are substring tests against
  string literals, \<open>"A-Z"\<close> and \<open>"@!"\<close>; the \<open>else\<close> belongs to the second one.
\<close>

definition parse_symbol :: "int \<Rightarrow> nat \<Rightarrow> tex_state \<Rightarrow> tex_state" where
  "parse_symbol row_num symbol st =
     (let st1 = (if py_in [symbol] (str ''A-Z'')
                 then st\<lparr>game := add_label [symbol] (size_sgf (game st) - 1 - row_num)
                                   (col_num st) (game st)\<rparr>
                 else st)
      in if py_in [symbol] (str ''@!'')
         then (if [symbol] = str ''@''
               then st1\<lparr>black := black st1 @ [(size_sgf (game st1) - 1 - row_num, col_num st1)]\<rparr>
               else st1\<lparr>white := white st1 @ [(size_sgf (game st1) - 1 - row_num, col_num st1)]\<rparr>)
         else st1\<lparr>col_num := col_num st1 + 1\<rparr>)"

definition parse_row :: "int \<Rightarrow> pystr \<Rightarrow> tex_state \<Rightarrow> tex_state" where
  "parse_row row_num row st =
     foldl (\<lambda>s symbol. parse_symbol row_num symbol s) (st\<lparr>col_num := 0\<rparr>) row"

fun parse_rows :: "int \<Rightarrow> pystr list \<Rightarrow> tex_state \<Rightarrow> tex_state" where
  "parse_rows row_num [] st = st"
| "parse_rows row_num (row # rows) st = parse_rows (row_num + 1) rows (parse_row row_num row st)"

text \<open>
  The first statement: three literal escapes are removed (each starts with a backslash,
  code point 92), then the text is split at the line feeds (code point 10).
\<close>

definition clean_lines :: "pystr \<Rightarrow> pystr list" where
  "clean_lines tex =
     py_split 10
       (py_replace (92 # str ''!  '') []
         (py_replace (92 # str ''- '') []
           (py_replace (92 # str ''0??'') [] tex)))"

text \<open>The state before the loops: a new board of size 19 and two empty lists.\<close>

definition tex_start :: tex_state where
  "tex_start = \<lparr> game = init_sgf 19, black = [], white = [], col_num = 0 \<rparr>"

definition tex_loop :: "pystr \<Rightarrow> tex_state" where
  "tex_loop tex = parse_rows 0 (clean_lines tex) tex_start"

definition tex2sgf :: "pystr \<Rightarrow> SimpleSGF" where
  "tex2sgf tex =
     (let st = tex_loop tex in set_setup_stones (black st) (white st) (game st))"

section \<open>The batch extractor: \<open>extract_sgf\<close>\<close>

text \<open>
  \<open>s.strip()\<close> removes white space at both ends; the ASCII white space of \<open>str.isspace\<close>
  is the range 9 to 13, the range 28 to 31 and the blank.
\<close>

definition py_isspace :: "ucd \<Rightarrow> nat \<Rightarrow> bool" where
  "py_isspace U c =
     (if c < 128 then (9 \<le> c \<and> c \<le> 13) \<or> (28 \<le> c \<and> c \<le> 32) else uc_isspace U c)"

definition py_strip :: "ucd \<Rightarrow> pystr \<Rightarrow> pystr" where
  "py_strip U s = rev (dropWhile (py_isspace U) (rev (dropWhile (py_isspace U) s)))"

text \<open>
  What a run of \<open>extract_sgf\<close> depends on besides the document: the Unicode tables, the
  iteration order of the sets, what \<open>filename.format(problem_num=..., name=...)\<close> gives
  for the caller's template (it can raise), which paths the file system lets the run
  open for writing, whether \<open>render_output_dir\<close> is given, and the flag \<open>normalize\<close>.
\<close>

record extract_env =
  env_ucd :: ucd
  iter_points :: "(int \<times> int) set \<Rightarrow> (int \<times> int) list"
  iter_marks :: "(pystr \<times> int \<times> int) set \<Rightarrow> (pystr \<times> int \<times> int) list"
  format_name :: "int \<Rightarrow> pystr \<Rightarrow> error + pystr"
  writable :: "pystr \<Rightarrow> bool"
  render :: bool
  normalize :: bool

text \<open>The files the run has opened for writing, oldest first, with their contents.\<close>

type_synonym files = "(pystr \<times> pybytes) list"

definition serialize_env :: "extract_env \<Rightarrow> SimpleSGF \<Rightarrow> error + pybytes" where
  "serialize_env E g =
     serialize (iter_points E (setup_black g)) (iter_points E (setup_white g))
       (iter_marks E (marks g)) g"

text \<open>
  \<open>render_sgf\<close> with \<open>ShrinkWrapOption.ROW_ONLY\<close>, up to the command line: the board is
  serialized for the temporary file, then the viewport is computed from the lowest row
  that has a stone (\<open>min\<close> of an empty set raises).  The external programs are not part of
  the model; the result is the viewport argument.
\<close>

definition render_sgf :: "extract_env \<Rightarrow> SimpleSGF \<Rightarrow> error + pystr" where
  "render_sgf E g =
     and_then (serialize_env E g) (\<lambda>data.
       let moves = setup_black g \<union> setup_white g in
       if moves = {} then Inl ValueError
       else and_then (py_chr (size_sgf g - Min (fst ` moves) + 97)) (\<lambda>c.
              Inr (str ''aa-s'' @ [min c 115])))"

text \<open>The three chained \<open>replace\<close> calls that swap the words black and white.\<close>

definition rewrite_title :: "pystr \<Rightarrow> pystr" where
  "rewrite_title name =
     py_replace (str ''!!temp'') (str ''white'')
       (py_replace (str ''white'') (str ''black'')
         (py_replace (str ''black'') (str ''!!temp'') name))"

text \<open>
  The \<open>if "white to play" in name\<close> block.  With \<open>normalize\<close> the title is rewritten and
  then \<open>name.endwith\<close> is evaluated; \<open>str\<close> has no attribute of that name, so the
  statement raises \<open>AttributeError\<close> and the rest of the block, the call of
  \<open>flip_colors\<close> included, is not reached.
\<close>

definition prepare_game ::
  "extract_env \<Rightarrow> pystr \<Rightarrow> SimpleSGF \<Rightarrow> error + (pystr \<times> SimpleSGF)" where
  "prepare_game E name g =
     (if py_in (str ''white to play'') name
      then and_then (set_player (env_ucd E) (str ''W'') g) (\<lambda>g1.
             if normalize E
             then (let name1 = rewrite_title name in Inl AttributeError)
             else Inr (name, g1))
      else Inr (name, g))"

text \<open>
  The body of the loop for problem \<open>i\<close> (counted from 0) and the pair \<open>m\<close> of the two
  matched groups, board text first.  The file is opened before the board is serialized,
  so a failing \<open>serialize\<close> leaves an empty file behind.
\<close>

definition extract_problem ::
  "extract_env \<Rightarrow> int \<Rightarrow> pystr \<times> pystr \<Rightarrow> files \<Rightarrow> error option \<times> files" where
  "extract_problem E i m fs =
     (let name = py_strip (env_ucd E) (snd m);
          g = tex2sgf (fst m)
      in case prepare_game E name g of
           Inl e \<Rightarrow> (Some e, fs)
         | Inr (name1, g1) \<Rightarrow>
             (let g2 = set_comment name1 g1 in
              case format_name E (i + 1) name1 of
                Inl e \<Rightarrow> (Some e, fs)
              | Inr f \<Rightarrow>
                  (let sgf_filename = f @ str ''.sgf'' in
                   if \<not> writable E sgf_filename then (Some OSError, fs)
                   else case serialize_env E g2 of
                          Inl e \<Rightarrow> (Some e, fs @ [(sgf_filename, [])])
                        | Inr data \<Rightarrow>
                            (let fs1 = fs @ [(sgf_filename, data)] in
                             if render E
                             then (case format_name E (i + 1) name1 of
                                     Inl e \<Rightarrow> (Some e, fs1)
                                   | Inr f2 \<Rightarrow>
                                       (case render_sgf E g2 of
                                          Inl e \<Rightarrow> (Some e, fs1)
                                        | Inr vw \<Rightarrow> (None, fs1)))
                             else (None, fs1)))))"

text \<open>
  The loop over the zipped matches.  The two regular-expression scans of the document
  are not modelled: the argument is the list of paired groups in document order.  The
  result is the exception that ended the run, if any, and the files written.
\<close>

fun extract_loop ::
  "extract_env \<Rightarrow> int \<Rightarrow> (pystr \<times> pystr) list \<Rightarrow> files \<Rightarrow> error option \<times> files" where
  "extract_loop E i [] fs = (None, fs)"
| "extract_loop E i (m # ms) fs =
     (case extract_problem E i m fs of
        (Some e, fs1) \<Rightarrow> (Some e, fs1)
      | (None, fs1) \<Rightarrow> extract_loop E (i + 1) ms fs1)"

definition extract_sgf ::
  "extract_env \<Rightarrow> (pystr \<times> pystr) list \<Rightarrow> error option \<times> files" where
  "extract_sgf E ms = extract_loop E 0 ms []"

text \<open>
  An environment to run the extractor in: no character beyond ASCII has a special
  property, sets are iterated in sorted order, the template is \<open>"{name}"\<close> (the one \<open>main\<close>
  passes), every path can be written, nothing is rendered.
\<close>

definition example_env :: "bool \<Rightarrow> extract_env" where
  "example_env n =
     \<lparr> env_ucd = \<lparr> uc_upper = (\<lambda>c. [c]), uc_isspace = (\<lambda>c. False),
                   uc_decimal = (\<lambda>c. None) \<rparr>,
       iter_points = sorted_list_of_set, iter_marks = sorted_list_of_set,
       format_name = (\<lambda>i name. Inr name), writable = (\<lambda>f. True), render = False,
       normalize = n \<rparr>"

section \<open>The collection merger: \<open>merge_sgfs\<close>\<close>

text \<open>
  \<open>re.findall(r"\d+", s)\<close>: the maximal runs of decimal digits of \<open>s\<close>, from left to
  right; \<open>run\<close> is the run being read.  \<open>int(x)\<close> of such a run is its decimal value (file
  names are far shorter than the interpreter's limit on the length of the numeral).
\<close>

definition is_digit :: "ucd \<Rightarrow> nat \<Rightarrow> bool" where
  "is_digit U c = (if c < 128 then 48 \<le> c \<and> c \<le> 57 else uc_decimal U c \<noteq> None)"

definition digit_value :: "ucd \<Rightarrow> nat \<Rightarrow> nat" where
  "digit_value U c =
     (if c < 128 then c - 48 else (case uc_decimal U c of Some v \<Rightarrow> v | None \<Rightarrow> 0))"

fun digit_runs :: "ucd \<Rightarrow> pystr \<Rightarrow> pystr \<Rightarrow> pystr list" where
  "digit_runs U run [] = (if run = [] then [] else [run])"
| "digit_runs U run (c # cs) =
     (if is_digit U c then digit_runs U (run @ [c]) cs
      else (if run = [] then [] else [run]) @ digit_runs U [] cs)"

definition findall_digits :: "ucd \<Rightarrow> pystr \<Rightarrow> pystr list" where
  "findall_digits U s = digit_runs U [] s"

definition py_int :: "ucd \<Rightarrow> pystr \<Rightarrow> int" where
  "py_int U ds = int (foldl (\<lambda>acc c. 10 * acc + digit_value U c) 0 ds)"

text \<open>
  \<open>Path.stem\<close> of a file name: the name up to its last dot, unless that dot is the first
  or the last character (\<open>rfind\<close> gives the index of the last occurrence).
\<close>

fun rfind :: "nat \<Rightarrow> pystr \<Rightarrow> nat option" where
  "rfind c [] = None"
| "rfind c (x # xs) =
     (case rfind c xs of
        Some i \<Rightarrow> Some (Suc i)
      | None \<Rightarrow> if x = c then Some 0 else None)"

definition stem :: "pystr \<Rightarrow> pystr" where
  "stem name =
     (case rfind 46 name of
        None \<Rightarrow> name
      | Some i \<Rightarrow> if 0 < i \<and> i < length name - 1 then take i name else name)"

text \<open>The sort key of a file: the integers embedded in its stem.\<close>

definition file_key :: "ucd \<Rightarrow> pystr \<Rightarrow> int list" where
  "file_key U name = map (py_int U) (findall_digits U (stem name))"

text \<open>
  \<open>sorted(..., key=...)\<close> is a stable sort, and Python compares lists of integers
  lexicographically, a proper prefix being smaller: this is \<open>sort_key\<close> on the
  lexicographic order of lists.  A file is its name and the text read from it; the
  argument lists the files in the order \<open>glob\<close> yields them.
\<close>

definition merge_order :: "ucd \<Rightarrow> (pystr \<times> pystr) list \<Rightarrow> (pystr \<times> pystr) list" where
  "merge_order U fs = sort_key (\<lambda>f. file_key U (fst f)) fs"

text \<open>The f-string \<open>{comment}\<close> for an optional string.\<close>

definition format_comment :: "pystr option \<Rightarrow> pystr" where
  "format_comment c = (case c of None \<Rightarrow> str ''None'' | Some s \<Rightarrow> s)"

text \<open>\<open>"".join(game.split("\n")[1:-2])\<close>: the lines but the first and the last two.\<close>

definition game_body :: "pystr \<Rightarrow> pystr" where
  "game_body content =
     (let ls = py_split 10 content in concat (drop 1 (take (length ls - 2) ls)))"

text \<open>\<open>merge_sgfs\<close>: the text written to the output file.\<close>

definition merge_sgfs :: "ucd \<Rightarrow> (pystr \<times> pystr) list \<Rightarrow> pystr option \<Rightarrow> pystr" where
  "merge_sgfs U fs c =
     foldl (\<lambda>all_games f.
              all_games @ str ''\<newline>'' @ (str ''(;'' @ game_body (snd f) @ str '')''))
       (str ''(;FF[4]GM[1]SZ[19]\<newline>C['' @ format_comment c @ str '']'')
       (merge_order U fs)
     @ str ''\<newline>)''"

section \<open>The coordinate range invariant\<close>

text \<open>
  The invariant of the data model, \<open>0 \<le> row, col < size\<close> for every coordinate of the
  two stone sets and of the labels.
\<close>

definition in_range :: "int \<Rightarrow> int \<times> int \<Rightarrow> bool" where
  "in_range n p = (0 \<le> fst p \<and> fst p < n \<and> 0 \<le> snd p \<and> snd p < n)"

definition coords_in_range :: "SimpleSGF \<Rightarrow> bool" where
  "coords_in_range g =
     ((\<forall>p \<in> setup_black g. in_range (size_sgf g) p)
      \<and> (\<forall>p \<in> setup_white g. in_range (size_sgf g) p)
      \<and> (\<forall>m \<in> marks g. in_range (size_sgf g) (snd m)))"

text \<open>
  The condition on the text under which the invariant holds.  \<open>points\<close> counts the
  characters of a piece of a line that are not stone glyphs; \<open>item_char\<close> holds for the
  characters the parser records a coordinate for, the two stone glyphs and the characters
  it takes for labels.  A text is in range when every such character is on one of its
  first 19 lines and has at most 18 characters other than stone glyphs before it on its
  line.
\<close>

definition points :: "pystr \<Rightarrow> nat" where
  "points row = length (filter (\<lambda>c. \<not> py_in [c] (str ''@!'')) row)"

definition item_char :: "nat \<Rightarrow> bool" where
  "item_char c = (py_in [c] (str ''@!'') \<or> py_in [c] (str ''A-Z''))"

definition text_in_range :: "pystr list \<Rightarrow> bool" where
  "text_in_range ls =
     list_all (\<lambda>j.
       list_all (\<lambda>i. item_char (ls ! j ! i) \<longrightarrow> j < 19 \<and> points (take i (ls ! j)) < 19)
         [0..<length (ls ! j)])
       [0..<length ls]"

text \<open>
  The coordinates recorded so far in a state of the parser's loops, and the coordinates
  of a board.
\<close>

definition coords :: "tex_state \<Rightarrow> (int \<times> int) set" where
  "coords st = set (black st) \<union> set (white st) \<union> snd ` marks (game st)"

definition coords_of :: "SimpleSGF \<Rightarrow> (int \<times> int) set" where
  "coords_of g = setup_black g \<union> setup_white g \<union> snd ` marks g"

section \<open>Reading a letter pair back\<close>

text \<open>
  The repository has no decoder.  The round-trip property is stated against the inverse
  of the two character maps as the specification words it: the first letter gives the
  column, \<open>ord(c) - 97\<close>, the second the row, \<open>size - 1 - (ord(r) - 97)\<close>.
\<close>

definition decode_letters_spec :: "int \<Rightarrow> pystr \<Rightarrow> (int \<times> int) option" where
  "decode_letters_spec n s =
     (case s of
        [c, r] \<Rightarrow> Some (n - 1 - (int r - 97), int c - 97)
      | _ \<Rightarrow> None)"

section \<open>Properties of the board model\<close>

lemma flip_colors_stones:
  "setup_black (flip_colors g) = setup_white g \<and> setup_white (flip_colors g) = setup_black g"
  by (simp add: flip_colors_def Let_def)

lemma flip_colors_player:
  "player (flip_colors g) = (if player g = str ''B'' then str ''W'' else player g)"
  by (simp add: flip_colors_def Let_def)

text \<open>
  C1 (flip_colors is an involution and one call swaps the player).  The stone sets are
  swapped, but the player is not: on a freshly constructed board (Black to play) two calls
  leave White to play, and on a board with White to play one call leaves White to play.
\<close>

theorem flip_colors_twice_not_identity:
  "player (init_sgf 19) = str ''B''
   \<and> player (flip_colors (init_sgf 19)) = str ''W''
   \<and> player (flip_colors (flip_colors (init_sgf 19))) = str ''W''
   \<and> flip_colors (flip_colors (init_sgf 19)) \<noteq> init_sgf 19"
  by (simp add: flip_colors_def init_sgf_def Let_def str_def)

lemma set_player_upper_ascii:
  "\<forall>c \<in> set p. c < 128 \<Longrightarrow> length (py_upper U p) = length p"
  by (induction p) (simp_all add: py_upper_def upper_char_def)

lemma py_in_BW: "py_in s (str ''BW'') \<longleftrightarrow> s \<in> {[], str ''B'', str ''W'', str ''BW''}"
  by (auto simp: str_def prefix_def Cons_eq_append_conv)

lemma upper_char_ascii:
  "c < 128 \<Longrightarrow> upper_char U c = [66] \<longleftrightarrow> c = 66 \<or> c = 98"
  "c < 128 \<Longrightarrow> upper_char U c = [87] \<longleftrightarrow> c = 87 \<or> c = 119"
  "c < 128 \<Longrightarrow> \<exists>d. upper_char U c = [d]"
  by (auto simp: upper_char_def)

lemma py_upper_ascii_BW:
  assumes "\<forall>c \<in> set p. c < 128"
  shows "py_upper U p \<in> {[], [66], [87], [66, 87]} \<longleftrightarrow>
         p \<in> {[], [98], [66], [119], [87], [98, 119], [98, 87], [66, 119], [66, 87]}"
proof (cases p)
  case Nil
  then show ?thesis by (simp add: py_upper_def)
next
  case (Cons a q)
  note p = this
  show ?thesis
  proof (cases q)
    case Nil
    with p assms have a: "a < 128" by simp
    from upper_char_ascii(3) [OF a, of U] obtain d where d: "upper_char U a = [d]" by blast
    show ?thesis
      using p Nil d upper_char_ascii(1,2) [OF a, of U]
      by (auto simp: py_upper_def)
  next
    case (Cons b r)
    note q = this
    show ?thesis
    proof (cases r)
      case Nil
      with p q assms have a: "a < 128" and b: "b < 128" by simp_all
      from upper_char_ascii(3) [OF a, of U] obtain d where d: "upper_char U a = [d]" by blast
      from upper_char_ascii(3) [OF b, of U] obtain e where e: "upper_char U b = [e]" by blast
      show ?thesis
        using p q Nil d e upper_char_ascii(1) [OF a, of U] upper_char_ascii(2) [OF b, of U]
        by (auto simp: py_upper_def)
    next
      case (Cons c t)
      have "length (py_upper U p) = length p"
        using assms by (rule set_player_upper_ascii)
      with p q Cons have "3 \<le> length (py_upper U p)" by simp
      then have "py_upper U p \<notin> {[], [66], [87], [66, 87]}" by auto
      with p q Cons show ?thesis by simp
    qed
  qed
qed

lemma set_player_ascii_iff:
  assumes "\<forall>c \<in> set p. c < 128"
  shows "(\<exists>g1. set_player U p g = Inr g1) \<longleftrightarrow>
         p \<in> {[], str ''b'', str ''B'', str ''w'', str ''W'',
               str ''bw'', str ''bW'', str ''Bw'', str ''BW''}"
proof -
  have "(\<exists>g1. set_player U p g = Inr g1) \<longleftrightarrow> py_in (py_upper U p) (str ''BW'')"
    by (simp add: set_player_def del: py_in.simps)
  also have "\<dots> \<longleftrightarrow> py_upper U p \<in> {[], [66], [87], [66, 87]}"
    unfolding py_in_BW by (simp add: str_def)
  also have "\<dots> \<longleftrightarrow> p \<in> {[], [98], [66], [119], [87], [98, 119], [98, 87], [66, 119], [66, 87]}"
    using assms by (rule py_upper_ascii_BW)
  also have "\<dots> \<longleftrightarrow> p \<in> {[], str ''b'', str ''B'', str ''w'', str ''W'',
               str ''bw'', str ''bW'', str ''Bw'', str ''BW''}"
    by (simp add: str_def)
  finally show ?thesis .
qed

text \<open>
  C7 (set_player succeeds exactly for Black or White, case-insensitively).  The assertion
  is a substring test against \<open>"BW"\<close>, so the two-letter string \<open>"BW"\<close> and the empty string
  pass it as well and are stored as the player, whatever the Unicode tables say.
\<close>

theorem set_player_accepts_BW_and_empty:
  "set_player U (str ''BW'') g = Inr (g\<lparr>player := str ''BW''\<rparr>)
   \<and> set_player U [] g = Inr (g\<lparr>player := []\<rparr>)
   \<and> set_player U (str ''bw'') g = Inr (g\<lparr>player := str ''BW''\<rparr>)"
  by (simp add: set_player_def py_upper_def upper_char_def str_def)

lemma set_player_rejects:
  "set_player U (str ''x'') g = Inl AssertionError"
  by (simp add: set_player_def py_upper_def upper_char_def str_def)

text \<open>
  C8 (normalisation leaves Black to play).  After \<open>set_player("W")\<close> the call of
  \<open>flip_colors\<close> leaves the player at \<open>"W"\<close>.
\<close>

theorem flip_after_white_stays_white:
  "set_player U (str ''W'') g = Inr (g\<lparr>player := str ''W''\<rparr>)
   \<and> player (flip_colors (g\<lparr>player := str ''W''\<rparr>)) = str ''W''
   \<and> player (flip_colors (g\<lparr>player := str ''W''\<rparr>)) \<noteq> str ''B''"
  by (simp add: set_player_def py_upper_def upper_char_def str_def flip_colors_def Let_def)

section \<open>Properties of the coordinate transform\<close>

lemma coord2letter_decode:
  "coord2letter g row col = Inr s \<Longrightarrow> decode_letters_spec (size_sgf g) s = Some (row, col)"
  by (auto simp: coord2letter_def py_chr_def decode_letters_spec_def split: if_splits)

text \<open>
  C4 (coordinate round-trip).  For a board of size at most 1114015 (beyond that \<open>chr\<close>
  has no character for the largest coordinates; the parser's boards have size 19) and
  every \<open>(row, col)\<close> with \<open>0 \<le> row, col < size\<close>, \<open>coord2letter\<close> returns the pair of
  characters \<open>chr(col + 97)\<close>, \<open>chr(size - row - 1 + 97)\<close>, and inverting the two character
  maps gives back exactly \<open>(row, col)\<close>.
\<close>

theorem coord_round_trip:
  assumes "0 \<le> row" "row < size_sgf g" "0 \<le> col" "col < size_sgf g" "size_sgf g \<le> 1114015"
  shows "\<exists>s. coord2letter g row col = Inr s
           \<and> s = [nat (col + 97), nat (size_sgf g - row - 1 + 97)]
           \<and> decode_letters_spec (size_sgf g) s = Some (row, col)"
  using assms by (simp add: coord2letter_def py_chr_def decode_letters_spec_def)

theorem coord_round_trip_witness:
  "coord2letter (init_sgf 19) 17 1 = Inr (str ''bb'')
   \<and> decode_letters_spec 19 (str ''bb'') = Some (17, 1)"
  using coord_round_trip [of 17 "init_sgf 19" 1]
  by (simp add: init_sgf_def str_def)

section \<open>Properties of the diagram parser\<close>

lemma stone_test: "py_in [c] (str ''@!'') \<longleftrightarrow> c = 64 \<or> c = 33"
  by (auto simp: str_def)

lemma label_test: "py_in [c] (str ''A-Z'') \<longleftrightarrow> c = 65 \<or> c = 45 \<or> c = 90"
  by (auto simp: str_def)

lemma parse_symbol_col:
  "col_num (parse_symbol row_num c st) =
     (if py_in [c] (str ''@!'') then col_num st else col_num st + 1)"
  by (simp add: parse_symbol_def Let_def)

lemma foldl_col:
  "col_num (foldl (\<lambda>s symbol. parse_symbol row_num symbol s) st row) =
     col_num st + int (length (filter (\<lambda>c. \<not> py_in [c] (str ''@!'')) row))"
  by (induction row arbitrary: st) (simp_all add: parse_symbol_col del: py_in.simps)

text \<open>
  C2 (column accounting), as the code has it: the column counter advances by exactly one
  for every character that is not one of the stone glyphs \<open>@\<close> and \<open>!\<close> (label characters
  included) and stays where it is for a stone glyph; so after a line the counter equals
  the number of the line's characters other than \<open>@\<close> and \<open>!\<close>.
\<close>

theorem column_count:
  "col_num (parse_symbol row_num c st) =
     (if py_in [c] (str ''@!'') then col_num st else col_num st + 1)
   \<and> col_num (parse_row row_num row st) =
       int (length (filter (\<lambda>c. \<not> py_in [c] (str ''@!'')) row))"
  by (simp add: parse_symbol_col foldl_col parse_row_def del: py_in.simps)

text \<open>
  C2 as stated fails: the line \<open>+@+!\<close> of four characters, alternating empty points and
  stones, accounts for two columns, and a black stone glyph alone does not advance the
  counter.
\<close>

theorem column_count_counterexample:
  "col_num (parse_row 0 (str ''+@+!'') tex_start) = 2
   \<and> col_num (parse_row 0 (str ''+@+!'') tex_start) \<noteq> int (length (str ''+@+!''))
   \<and> col_num (parse_symbol 0 64 tex_start) = col_num tex_start"
  by (simp add: parse_row_def parse_symbol_def tex_start_def str_def Let_def init_sgf_def
        add_label_def)

text \<open>
  C6 (labels for the upper-case letters).  The label test is a substring test against
  the three-character string \<open>"A-Z"\<close>: the letter \<open>B\<close> on a board point is not recorded, a
  hyphen is, and so is \<open>A\<close>; the recorded label takes one column.
\<close>

theorem labels_only_A_dash_Z:
  "marks (tex2sgf (str ''B'')) = {}
   \<and> marks (tex2sgf (str ''-'')) = {(str ''-'', 18, 0)}
   \<and> marks (tex2sgf (str ''AB'')) = {(str ''A'', 18, 0)}
   \<and> col_num (tex_loop (str ''AB'')) = 2"
  by (simp add: tex2sgf_def tex_loop_def clean_lines_def parse_row_def parse_symbol_def
        tex_start_def str_def Let_def init_sgf_def add_label_def set_setup_stones_def)

section \<open>The range of the parsed coordinates\<close>

lemma points_simps [simp]:
  "points [] = 0"
  "points (c # cs) = (if py_in [c] (str ''@!'') then points cs else Suc (points cs))"
  "points (xs @ ys) = points xs + points ys"
  by (simp_all add: points_def del: py_in.simps)

lemma parse_symbol_size:
  "size_sgf (game (parse_symbol rn c st)) = size_sgf (game st)"
  by (simp add: parse_symbol_def Let_def add_label_def)

lemma parse_symbol_col':
  "col_num (parse_symbol rn c st) = col_num st + (if py_in [c] (str ''@!'') then 0 else 1)"
  by (simp add: parse_symbol_def Let_def)

lemma parse_symbol_black:
  "black (parse_symbol rn c st) =
     black st @ (if c = 64 then [(size_sgf (game st) - 1 - rn, col_num st)] else [])"
  by (simp add: parse_symbol_def Let_def add_label_def str_def)

lemma parse_symbol_white:
  "white (parse_symbol rn c st) =
     white st @ (if c = 33 then [(size_sgf (game st) - 1 - rn, col_num st)] else [])"
  by (simp add: parse_symbol_def Let_def add_label_def str_def)

lemma parse_symbol_marks:
  "marks (game (parse_symbol rn c st)) =
     (if py_in [c] (str ''A-Z'') then insert ([c], size_sgf (game st) - 1 - rn, col_num st) (marks (game st))
      else marks (game st))"
  by (simp add: parse_symbol_def Let_def add_label_def del: py_in.simps)

lemma foldl_size:
  "size_sgf (game (foldl (\<lambda>s symbol. parse_symbol rn symbol s) st row)) = size_sgf (game st)"
  by (induction row arbitrary: st) (simp_all add: parse_symbol_size)

lemma parse_rows_size:
  "size_sgf (game (parse_rows rn rows st)) = size_sgf (game st)"
  by (induction rows arbitrary: rn st) (simp_all add: parse_row_def foldl_size)

lemma tex2sgf_size: "size_sgf (tex2sgf tex) = 19"
  by (simp add: tex2sgf_def Let_def set_setup_stones_def tex_loop_def parse_rows_size
        tex_start_def init_sgf_def)

lemma item_char_cases: "item_char c \<longleftrightarrow> c = 64 \<or> c = 33 \<or> c = 65 \<or> c = 45 \<or> c = 90"
  unfolding item_char_def stone_test label_test by blast

lemma parse_symbol_coords:
  "coords (parse_symbol rn c st) =
     coords st \<union> (if item_char c then {(size_sgf (game st) - 1 - rn, col_num st)} else {})"
  unfolding coords_def parse_symbol_black parse_symbol_white parse_symbol_marks
    item_char_cases label_test
  by auto

lemma coords_reset: "coords (st\<lparr>col_num := 0\<rparr>) = coords st"
  by (simp add: coords_def)

lemma foldl_coords:
  "p \<in> coords (foldl (\<lambda>s symbol. parse_symbol rn symbol s) st row) \<longleftrightarrow>
     p \<in> coords st \<or>
     (\<exists>i<length row. item_char (row ! i) \<and>
        p = (size_sgf (game st) - 1 - rn, col_num st + int (points (take i row))))"
proof (induction row arbitrary: st)
  case Nil
  then show ?case by simp
next
  case (Cons c cs)
  have "p \<in> coords (foldl (\<lambda>s symbol. parse_symbol rn symbol s) st (c # cs)) \<longleftrightarrow>
        p \<in> coords (parse_symbol rn c st) \<or>
        (\<exists>i<length cs. item_char (cs ! i) \<and>
           p = (size_sgf (game (parse_symbol rn c st)) - 1 - rn,
                col_num (parse_symbol rn c st) + int (points (take i cs))))"
    using Cons.IH [of "parse_symbol rn c st"] by simp
  also have "\<dots> \<longleftrightarrow>
        p \<in> coords st \<or> (item_char c \<and> p = (size_sgf (game st) - 1 - rn, col_num st)) \<or>
        (\<exists>i<length cs. item_char (cs ! i) \<and>
           p = (size_sgf (game st) - 1 - rn, col_num st + int (points (take (Suc i) (c # cs)))))"
    by (auto simp add: parse_symbol_coords parse_symbol_size parse_symbol_col'
          simp del: py_in.simps)
  also have "\<dots> \<longleftrightarrow>
        p \<in> coords st \<or>
        (\<exists>i<length (c # cs). item_char ((c # cs) ! i) \<and>
           p = (size_sgf (game st) - 1 - rn, col_num st + int (points (take i (c # cs)))))"
    by (simp add: Ex_less_Suc2 del: py_in.simps points_simps(2) take_Suc_Cons)
  finally show ?case .
qed

lemma parse_row_coords:
  "p \<in> coords (parse_row rn row st) \<longleftrightarrow>
     p \<in> coords st \<or>
     (\<exists>i<length row. item_char (row ! i) \<and>
        p = (size_sgf (game st) - 1 - rn, int (points (take i row))))"
  by (simp add: parse_row_def foldl_coords coords_reset)

lemma parse_row_size: "size_sgf (game (parse_row rn row st)) = size_sgf (game st)"
  by (simp add: parse_row_def foldl_size)

lemma parse_rows_coords:
  "p \<in> coords (parse_rows rn rows st) \<longleftrightarrow>
     p \<in> coords st \<or>
     (\<exists>j<length rows. \<exists>i<length (rows ! j). item_char (rows ! j ! i) \<and>
        p = (size_sgf (game st) - 1 - (rn + int j), int (points (take i (rows ! j)))))"
proof (induction rows arbitrary: rn st)
  case Nil
  then show ?case by simp
next
  case (Cons row rows)
  have "p \<in> coords (parse_rows rn (row # rows) st) \<longleftrightarrow>
        p \<in> coords (parse_row rn row st) \<or>
        (\<exists>j<length rows. \<exists>i<length (rows ! j). item_char (rows ! j ! i) \<and>
           p = (size_sgf (game st) - 1 - (rn + 1 + int j), int (points (take i (rows ! j)))))"
    using Cons.IH [of "rn + 1" "parse_row rn row st"] by (simp add: parse_row_size)
  also have "\<dots> \<longleftrightarrow>
        p \<in> coords st \<or>
        (\<exists>i<length ((row # rows) ! 0). item_char ((row # rows) ! 0 ! i) \<and>
           p = (size_sgf (game st) - 1 - (rn + int 0), int (points (take i ((row # rows) ! 0))))) \<or>
        (\<exists>j<length rows. \<exists>i<length ((row # rows) ! Suc j). item_char ((row # rows) ! Suc j ! i) \<and>
           p = (size_sgf (game st) - 1 - (rn + int (Suc j)),
                int (points (take i ((row # rows) ! Suc j)))))"
    by (simp add: parse_row_coords add.assoc add.commute)
  also have "\<dots> \<longleftrightarrow>
        p \<in> coords st \<or>
        (\<exists>j<length (row # rows). \<exists>i<length ((row # rows) ! j). item_char ((row # rows) ! j ! i) \<and>
           p = (size_sgf (game st) - 1 - (rn + int j), int (points (take i ((row # rows) ! j)))))"
    unfolding length_Cons Ex_less_Suc2 by (rule refl)
  finally show ?case .
qed

lemma tex2sgf_coords:
  "p \<in> coords_of (tex2sgf tex) \<longleftrightarrow>
     (\<exists>j<length (clean_lines tex). \<exists>i<length (clean_lines tex ! j).
        item_char (clean_lines tex ! j ! i) \<and>
        p = (18 - int j, int (points (take i (clean_lines tex ! j)))))"
proof -
  have "coords_of (tex2sgf tex) = coords (tex_loop tex)"
    by (simp add: coords_of_def coords_def tex2sgf_def Let_def set_setup_stones_def)
  moreover have "coords tex_start = {}" "size_sgf (game tex_start) = 19"
    by (simp_all add: coords_def tex_start_def init_sgf_def)
  ultimately show ?thesis
    by (simp add: tex_loop_def parse_rows_coords)
qed

lemma coords_in_range_alt:
  "coords_in_range g \<longleftrightarrow> (\<forall>p \<in> coords_of g. in_range (size_sgf g) p)"
  by (auto simp: coords_in_range_def coords_of_def)

lemma text_in_range_alt:
  "text_in_range ls \<longleftrightarrow>
     (\<forall>j<length ls. \<forall>i<length (ls ! j).
        item_char (ls ! j ! i) \<longrightarrow> j < 19 \<and> points (take i (ls ! j)) < 19)"
  by (auto simp add: text_in_range_def list_all_iff simp del: py_in.simps)

text \<open>
  C5 (coordinate range invariant), as the code has it: the parser checks nothing, so the
  invariant depends on the input, and exactly as follows.  The parsed board satisfies
  \<open>0 \<le> row < 19\<close> and \<open>0 \<le> col < 19\<close> for every coordinate of its black stones, white
  stones and labels if and only if every stone glyph and every label character of the
  cleaned text is on one of the first 19 lines and has at most 18 characters other than
  stone glyphs before it on its line.
\<close>

theorem parser_coords_in_range:
  "coords_in_range (tex2sgf tex) \<longleftrightarrow> text_in_range (clean_lines tex)"
proof
  assume r: "coords_in_range (tex2sgf tex)"
  show "text_in_range (clean_lines tex)"
    unfolding text_in_range_alt
  proof (intro allI impI)
    fix j i
    assume j: "j < length (clean_lines tex)" and i: "i < length (clean_lines tex ! j)"
      and c: "item_char (clean_lines tex ! j ! i)"
    let ?p = "(18 - int j, int (points (take i (clean_lines tex ! j))))"
    from j i c have "?p \<in> coords_of (tex2sgf tex)"
      unfolding tex2sgf_coords by blast
    with r have "in_range 19 ?p"
      by (simp add: coords_in_range_alt tex2sgf_size)
    then show "j < 19 \<and> points (take i (clean_lines tex ! j)) < 19"
      by (simp add: in_range_def)
  qed
next
  assume t: "text_in_range (clean_lines tex)"
  show "coords_in_range (tex2sgf tex)"
    unfolding coords_in_range_alt tex2sgf_size
  proof
    fix p
    assume "p \<in> coords_of (tex2sgf tex)"
    then obtain j i where j: "j < length (clean_lines tex)"
      and i: "i < length (clean_lines tex ! j)"
      and c: "item_char (clean_lines tex ! j ! i)"
      and p: "p = (18 - int j, int (points (take i (clean_lines tex ! j))))"
      unfolding tex2sgf_coords by blast
    from t j i c have "j < 19 \<and> points (take i (clean_lines tex ! j)) < 19"
      unfolding text_in_range_alt by blast
    with p show "in_range 19 p" by (simp add: in_range_def)
  qed
qed


theorem parser_coords_in_range_witness:
  "text_in_range (clean_lines (concat (replicate 19 (str ''@+!+\<newline>''))))
   \<and> length (clean_lines (concat (replicate 19 (str ''@+!+\<newline>'')))) = 20
   \<and> coords_in_range (tex2sgf (concat (replicate 19 (str ''@+!+\<newline>''))))"
proof -
  have t: "text_in_range (clean_lines (concat (replicate 19 (str ''@+!+\<newline>''))))"
    by code_simp
  have l: "length (clean_lines (concat (replicate 19 (str ''@+!+\<newline>'')))) = 20"
    by code_simp
  from parser_coords_in_range [of "concat (replicate 19 (str ''@+!+\<newline>''))"] t
  have "coords_in_range (tex2sgf (concat (replicate 19 (str ''@+!+\<newline>''))))" by blast
  with t l show ?thesis by blast
qed

lemma text_in_range_examples:
  "text_in_range (clean_lines (str ''@!\<newline>!@''))"
  "text_in_range (clean_lines (str ''@''))"
  "text_in_range (clean_lines (replicate 25 43))"
  "\<not> text_in_range (clean_lines (str ''+++++++++++++++++++@''))"
  "\<not> text_in_range (clean_lines (replicate 19 10 @ str ''@''))"
  by code_simp+

text \<open>
  C5 as stated fails: a black stone after nineteen empty points is recorded in column 19,
  and a black stone on the twentieth line is recorded in row \<open>-1\<close>.
\<close>

theorem parser_coords_counterexample:
  "\<not> coords_in_range (tex2sgf (str ''+++++++++++++++++++@''))
   \<and> (18, 19) \<in> setup_black (tex2sgf (str ''+++++++++++++++++++@''))
   \<and> \<not> coords_in_range (tex2sgf (replicate 19 10 @ str ''@''))
   \<and> (- 1, 0) \<in> setup_black (tex2sgf (replicate 19 10 @ str ''@''))"
proof -
  have a: "setup_black (tex2sgf (str ''+++++++++++++++++++@'')) = {(18, 19)}"
    by (simp add: tex2sgf_def tex_loop_def clean_lines_def parse_row_def parse_symbol_def
        tex_start_def str_def Let_def init_sgf_def add_label_def set_setup_stones_def)
  have r: "replicate 19 (10::nat) = [10,10,10,10,10,10,10,10,10,10,10,10,10,10,10,10,10,10,10]"
    by (simp add: eval_nat_numeral)
  have b: "setup_black (tex2sgf (replicate 19 10 @ str ''@'')) = {(- 1, 0)}"
    unfolding r
    by (simp add: tex2sgf_def tex_loop_def clean_lines_def parse_row_def parse_symbol_def
        tex_start_def str_def Let_def init_sgf_def add_label_def set_setup_stones_def)
  show ?thesis
    using a b by (simp add: coords_in_range_def in_range_def tex2sgf_size)
qed

section \<open>The end-to-end scenario\<close>

lemma enumerates_empty: "enumerates xs {} \<longleftrightarrow> xs = []"
  by (auto simp: enumerates_def)

lemma enumerates_pair:
  assumes "a \<noteq> b" "enumerates xs {a, b}"
  shows "xs = [a, b] \<or> xs = [b, a]"
proof -
  from assms have d: "distinct xs" and s: "set xs = {a, b}" by (auto simp: enumerates_def)
  from d have "length xs = card (set xs)" by (simp add: distinct_card)
  with s assms(1) have "length xs = 2" by simp
  then obtain x y where xy: "xs = [x, y]"
    by (cases xs; cases "tl xs") auto
  with s d show ?thesis by (auto simp: doubleton_eq_iff)
qed

lemma parsed_example:
  "tex2sgf (str ''@!\<newline>!@'') =
     \<lparr> size_sgf = 19, setup_black = {(18, 0), (17, 0)}, setup_white = {(18, 0), (17, 0)},
       marks = {}, comment = None, player = str ''B'' \<rparr>"
  by (simp add: tex2sgf_def tex_loop_def clean_lines_def parse_row_def parse_symbol_def
        tex_start_def str_def Let_def init_sgf_def add_label_def set_setup_stones_def)

lemma serialize_example:
  assumes "bs = [(18, 0), (17, 0)] \<or> bs = [(17, 0), (18, 0)]"
      and "ws = [(18, 0), (17, 0)] \<or> ws = [(17, 0), (18, 0)]"
  shows "serialize bs ws []
     \<lparr> size_sgf = 19, setup_black = {(18, 0), (17, 0)}, setup_white = {(18, 0), (17, 0)},
       marks = {}, comment = None, player = str ''B'' \<rparr> =
    Inr (str ''(;FF[4]GM[1]SZ[19]\<newline>PL[B]\<newline>AB''
         @ concat (map (\<lambda>p. if p = (18, 0) then str ''[aa]'' else str ''[ab]'') bs)
         @ str ''\<newline>AW''
         @ concat (map (\<lambda>p. if p = (18, 0) then str ''[aa]'' else str ''[ab]'') ws)
         @ str ''\<newline>CA[UTF-8])\<newline>'')"
  using assms
  by (auto simp add: serialize_def Let_def and_then_def coord2letter_def py_chr_def str_def
        str_int_def digits.simps utf8_char_def)

text \<open>
  C3 (end-to-end scenario), as the code has it: a stone glyph does not advance the
  column, so parsing the two lines \<open>@!\<close> and \<open>!@\<close> puts all four stones in column 0.  The
  black stones are exactly \<open>(18,0)\<close> and \<open>(17,0)\<close>, the white stones are exactly the same two
  points, and for every iteration order of the sets the output is the header, \<open>PL[B]\<close>,
  an \<open>AB\<close> property listing exactly \<open>[aa]\<close> and \<open>[ab]\<close>, an \<open>AW\<close> property listing exactly
  \<open>[aa]\<close> and \<open>[ab]\<close>, and the trailer.
\<close>

theorem end_to_end:
  assumes "g = tex2sgf (str ''@!\<newline>!@'')"
      and "enumerates bs (setup_black g)" "enumerates ws (setup_white g)"
      and "enumerates ms (marks g)"
  shows "setup_black g = {(18, 0), (17, 0)} \<and> setup_white g = {(18, 0), (17, 0)}
    \<and> (\<exists>ab aw. ab \<in> {str ''[aa][ab]'', str ''[ab][aa]''}
         \<and> aw \<in> {str ''[aa][ab]'', str ''[ab][aa]''}
         \<and> serialize bs ws ms g =
             Inr (str ''(;FF[4]GM[1]SZ[19]\<newline>PL[B]\<newline>AB'' @ ab @ str ''\<newline>AW'' @ aw
                    @ str ''\<newline>CA[UTF-8])\<newline>''))"
proof -
  have g: "g = \<lparr> size_sgf = 19, setup_black = {(18, 0), (17, 0)},
       setup_white = {(18, 0), (17, 0)}, marks = {}, comment = None, player = str ''B'' \<rparr>"
    using assms(1) parsed_example by simp
  have b: "bs = [(18, 0), (17, 0)] \<or> bs = [(17, 0), (18, 0)]"
    using assms(2) g enumerates_pair [of "(18, 0)" "(17, 0)" bs] by simp
  have w: "ws = [(18, 0), (17, 0)] \<or> ws = [(17, 0), (18, 0)]"
    using assms(3) g enumerates_pair [of "(18, 0)" "(17, 0)" ws] by simp
  have m: "ms = []" using assms(4) g by (simp add: enumerates_empty)
  have ab: "concat (map (\<lambda>p. if p = (18, 0) then str ''[aa]'' else str ''[ab]'') bs)
              \<in> {str ''[aa][ab]'', str ''[ab][aa]''}"
    using b by (auto simp: str_def)
  have aw: "concat (map (\<lambda>p. if p = (18, 0) then str ''[aa]'' else str ''[ab]'') ws)
              \<in> {str ''[aa][ab]'', str ''[ab][aa]''}"
    using w by (auto simp: str_def)
  show ?thesis
    using serialize_example [OF b w] ab aw unfolding g m
    by (intro conjI exI) (simp_all only: SimpleSGF.simps)
qed

theorem end_to_end_witness:
  "enumerates [(18, 0), (17, 0)] (setup_black (tex2sgf (str ''@!\<newline>!@'')))
   \<and> enumerates [(17, 0), (18, 0)] (setup_white (tex2sgf (str ''@!\<newline>!@'')))
   \<and> enumerates [] (marks (tex2sgf (str ''@!\<newline>!@'')))
   \<and> setup_black (tex2sgf (str ''@!\<newline>!@'')) = {(18, 0), (17, 0)}
   \<and> setup_white (tex2sgf (str ''@!\<newline>!@'')) = {(18, 0), (17, 0)}
   \<and> serialize [(18, 0), (17, 0)] [(17, 0), (18, 0)] [] (tex2sgf (str ''@!\<newline>!@'')) =
       Inr (str ''(;FF[4]GM[1]SZ[19]\<newline>PL[B]\<newline>AB[aa][ab]\<newline>AW[ab][aa]\<newline>CA[UTF-8])\<newline>'')"
proof -
  let ?g = "tex2sgf (str ''@!\<newline>!@'')"
  have e1: "enumerates [(18, 0), (17, 0)] (setup_black ?g)"
    by (simp add: parsed_example enumerates_def)
  have e2: "enumerates [(17, 0), (18, 0)] (setup_white ?g)"
    by (auto simp add: parsed_example enumerates_def)
  have e3: "enumerates [] (marks ?g)"
    by (simp add: parsed_example enumerates_def)
  have s: "serialize [(18, 0), (17, 0)] [(17, 0), (18, 0)] [] ?g =
       Inr (str ''(;FF[4]GM[1]SZ[19]\<newline>PL[B]\<newline>AB[aa][ab]\<newline>AW[ab][aa]\<newline>CA[UTF-8])\<newline>'')"
    unfolding parsed_example by (subst serialize_example) (simp_all add: str_def)
  from end_to_end [OF refl e1 e2 e3] have "setup_black ?g = {(18, 0), (17, 0)}"
    and "setup_white ?g = {(18, 0), (17, 0)}" by blast+
  with e1 e2 e3 s show ?thesis by blast
qed

text \<open>
  C3 as stated fails: the parsed black stones are not \<open>{(18,0), (17,1)}\<close> and the white
  stones are not \<open>{(18,1), (17,0)}\<close>.
\<close>

theorem end_to_end_counterexample:
  "setup_black (tex2sgf (str ''@!\<newline>!@'')) \<noteq> {(18, 0), (17, 1)}
   \<and> setup_white (tex2sgf (str ''@!\<newline>!@'')) \<noteq> {(18, 1), (17, 0)}"
  by (simp add: parsed_example doubleton_eq_iff)

section \<open>Properties of the batch extractor\<close>

lemma set_player_W: "set_player U (str ''W'') g = Inr (g\<lparr>player := str ''W''\<rparr>)"
  by (simp add: set_player_def py_upper_def upper_char_def str_def)

lemma prepare_white_normalize:
  "normalize E \<Longrightarrow> py_in (str ''white to play'') name \<Longrightarrow>
   prepare_game E name g = Inl AttributeError"
  by (simp add: prepare_game_def set_player_W and_then_def Let_def del: py_in.simps)

lemma extract_problem_white_normalize:
  "normalize E \<Longrightarrow> py_in (str ''white to play'') (py_strip (env_ucd E) (snd m)) \<Longrightarrow>
   extract_problem E i m fs = (Some AttributeError, fs)"
  by (simp add: extract_problem_def prepare_white_normalize Let_def del: py_in.simps)

lemma extract_problem_length:
  "extract_problem E i m fs = (r, fs1) \<Longrightarrow> length fs1 \<le> Suc (length fs)"
  by (auto simp: extract_problem_def Let_def split: sum.splits prod.splits if_splits)

lemma extract_loop_raises:
  "normalize E \<Longrightarrow> k < length ms \<Longrightarrow>
   py_in (str ''white to play'') (py_strip (env_ucd E) (snd (ms ! k))) \<Longrightarrow>
   \<exists>e fs1. extract_loop E i ms fs = (Some e, fs1) \<and> length fs1 \<le> length fs + k"
proof (induction ms arbitrary: k i fs)
  case Nil
  then show ?case by simp
next
  case (Cons m ms)
  show ?case
  proof (cases k)
    case 0
    with Cons.prems show ?thesis
      by (simp add: extract_problem_white_normalize del: py_in.simps)
  next
    case (Suc j)
    obtain r fs1 where step: "extract_problem E i m fs = (r, fs1)"
      by (cases "extract_problem E i m fs")
    from extract_problem_length [OF step] have len: "length fs1 \<le> Suc (length fs)" .
    show ?thesis
    proof (cases r)
      case None
      from Cons.prems Suc have "j < length ms"
        "py_in (str ''white to play'') (py_strip (env_ucd E) (snd (ms ! j)))" by simp_all
      from Cons.IH [OF Cons.prems(1) this, of "i + 1" fs1]
      obtain e fs2 where "extract_loop E (i + 1) ms fs1 = (Some e, fs2)"
        "length fs2 \<le> length fs1 + j"
        by blast
      with step None len Suc show ?thesis by simp
    next
      case (Some e)
      with step len Suc show ?thesis by simp
    qed
  qed
qed

text \<open>
  C10 (normalisation never completes on a white-to-play title).  In a run with
  \<open>normalize\<close> set, a problem whose title contains \<open>white to play\<close> ends with
  \<open>AttributeError\<close> before any file is opened for it, whatever the problem number and
  the files written so far; and a run over a document in which problem \<open>k\<close> (counted from
  0) has such a title ends with an exception, having written at most \<open>k\<close> files, those of
  earlier problems.
\<close>

theorem normalize_white_raises:
  assumes "normalize E" and "k < length ms"
      and "py_in (str ''white to play'') (py_strip (env_ucd E) (snd (ms ! k)))"
  shows "extract_problem E i (ms ! k) fs = (Some AttributeError, fs)
         \<and> (\<exists>e fs1. extract_sgf E ms = (Some e, fs1) \<and> length fs1 \<le> k)"
  using assms extract_problem_white_normalize [of E "ms ! k" i fs]
    extract_loop_raises [of E k ms 0 "[]"]
  by (simp add: extract_sgf_def del: py_in.simps)

theorem normalize_white_raises_witness:
  "normalize (example_env True)
   \<and> py_in (str ''white to play'')
        (py_strip (env_ucd (example_env True)) (str '' 1. white to play ''))
   \<and> extract_problem (example_env True) 0 (str ''@+'', str '' 1. white to play '') [] =
       (Some AttributeError, [])
   \<and> extract_sgf (example_env True) [(str ''@+'', str '' 1. white to play '')] =
       (Some AttributeError, [])"
proof -
  let ?ms = "[(str ''@+'', str '' 1. white to play '')]"
  have n: "normalize (example_env True)" by (simp add: example_env_def)
  have k: "(0::nat) < length ?ms" by simp
  have s: "py_strip (env_ucd (example_env True)) (str '' 1. white to play '') =
             str ''1. white to play''"
    by (simp add: py_strip_def py_isspace_def str_def)
  have w: "py_in (str ''white to play'') (py_strip (env_ucd (example_env True)) (snd (?ms ! 0)))"
    by (simp add: s) (simp add: str_def)
  from normalize_white_raises [OF n k w, of 0 "[]"]
  have a: "extract_problem (example_env True) 0 (?ms ! 0) [] = (Some AttributeError, [])"
    by blast
  have d: "extract_sgf (example_env True) ?ms = (Some AttributeError, [])"
    using a by (simp add: extract_sgf_def)
  from n w a d show ?thesis by simp
qed

lemma without_normalize_example:
  "extract_sgf (example_env False) [(str ''@+'', str '' 1. white to play '')] =
     (None, [(str ''1. white to play.sgf'',
              str ''(;FF[4]GM[1]SZ[19]\<newline>C[1. white to play]\<newline>PL[W]\<newline>AB[aa]\<newline>CA[UTF-8])\<newline>'')])"
  by code_simp

section \<open>Properties of the collection merger\<close>

lemma merge_sgfs_concat:
  "merge_sgfs U fs c =
     str ''(;FF[4]GM[1]SZ[19]\<newline>C['' @ format_comment c @ str '']''
     @ concat (map (\<lambda>f. str ''\<newline>(;'' @ game_body (snd f) @ str '')'') (merge_order U fs))
     @ str ''\<newline>)''"
proof -
  have "foldl (\<lambda>all_games f.
              all_games @ str ''\<newline>'' @ (str ''(;'' @ game_body (snd f) @ str '')'')) acc xs
        = acc @ concat (map (\<lambda>f. str ''\<newline>(;'' @ game_body (snd f) @ str '')'') xs)"
    for acc and xs :: "(pystr \<times> pystr) list"
    by (induction xs arbitrary: acc) (simp_all add: str_def)
  then show ?thesis by (simp add: merge_sgfs_def)
qed

text \<open>
  C9 (merger ordering).  The files are merged in the order of their keys, the lists of
  the integers embedded in the file stems, compared as lists of integers; the merged
  files are the given files, and files with equal keys keep their order.  The key of
  \<open>problem 10.sgf\<close> is \<open>[10]\<close>; the files \<open>problem 2.sgf\<close>, \<open>problem 10.sgf\<close>,
  \<open>problem 1.sgf\<close> are merged in the order 1, 2, 10, although as strings
  \<open>problem 10.sgf\<close> comes before \<open>problem 2.sgf\<close>.
\<close>

theorem merge_order_numeric:
  "sorted (map (\<lambda>f. file_key U (fst f)) (merge_order U fs))
   \<and> mset (merge_order U fs) = mset fs
   \<and> filter (\<lambda>f. file_key U (fst f) = k) (merge_order U fs) =
       filter (\<lambda>f. file_key U (fst f) = k) fs
   \<and> file_key U (str ''problem 10.sgf'') = [10]
   \<and> merge_order U [(str ''problem 2.sgf'', a), (str ''problem 10.sgf'', b),
                     (str ''problem 1.sgf'', c)] =
       [(str ''problem 1.sgf'', c), (str ''problem 2.sgf'', a), (str ''problem 10.sgf'', b)]
   \<and> merge_sgfs U [(str ''problem 2.sgf'', a), (str ''problem 10.sgf'', b),
                    (str ''problem 1.sgf'', c)] (Some t) =
       str ''(;FF[4]GM[1]SZ[19]\<newline>C['' @ t @ str '']''
       @ str ''\<newline>(;'' @ game_body c @ str '')''
       @ str ''\<newline>(;'' @ game_body a @ str '')''
       @ str ''\<newline>(;'' @ game_body b @ str '')''
       @ str ''\<newline>)''
   \<and> str ''problem 10.sgf'' < str ''problem 2.sgf''"
proof -
  have key10: "file_key U (str ''problem 10.sgf'') = [10]"
    and key2: "file_key U (str ''problem 2.sgf'') = [2]"
    and key1: "file_key U (str ''problem 1.sgf'') = [1]"
    by (simp_all add: file_key_def stem_def findall_digits_def py_int_def is_digit_def
          digit_value_def str_def)
  have ord: "merge_order U [(str ''problem 2.sgf'', a), (str ''problem 10.sgf'', b),
                     (str ''problem 1.sgf'', c)] =
       [(str ''problem 1.sgf'', c), (str ''problem 2.sgf'', a), (str ''problem 10.sgf'', b)]"
    by (simp add: merge_order_def key10 key2 key1)
  have out: "merge_sgfs U [(str ''problem 2.sgf'', a), (str ''problem 10.sgf'', b),
                    (str ''problem 1.sgf'', c)] (Some t) =
       str ''(;FF[4]GM[1]SZ[19]\<newline>C['' @ t @ str '']''
       @ str ''\<newline>(;'' @ game_body c @ str '')''
       @ str ''\<newline>(;'' @ game_body a @ str '')''
       @ str ''\<newline>(;'' @ game_body b @ str '')''
       @ str ''\<newline>)''"
    unfolding merge_sgfs_concat ord by (simp add: format_comment_def)
  have lex: "str ''problem 10.sgf'' < str ''problem 2.sgf''" by (simp add: str_def)
  show ?thesis
    using key10 ord out lex by (simp add: merge_order_def sort_key_stable)
qed

end
